theory Spec2Isabelle
  imports Main
begin

section \<open>The IMAP e-mail content sensor (imap\_email\_content/sensor.py)\<close>

text \<open>
  The embedding follows \<^verbatim>\<open>sensor.py\<close>: the class \<^verbatim>\<open>EmailReader\<close> is a record that is
  passed through every call and returned updated, an exception is the left summand of the
  result, and the IMAP server is a parameter (what it answers during one call).
\<close>

subsection \<open>Exceptions\<close>

text \<open>
  \<^verbatim>\<open>IMAP4_error\<close> stands for \<^verbatim>\<open>imaplib.IMAP4.error\<close> and its subclasses (abort, readonly):
  the only class the \<^verbatim>\<open>except\<close> clauses of the file name. Every other constructor is an
  exception that no clause of the file catches.
\<close>

datatype exn =
  IMAP4_error | AttributeError | IndexError | ValueError | TypeError | NameError | OSError

subsection \<open>Messages\<close>

text \<open>
  A parsed \<^verbatim>\<open>email.message.Message\<close>: its headers in order, the value of
  \<^verbatim>\<open>get_content_type()\<close>, and the value of \<^verbatim>\<open>get_payload()\<close>, a string or (multipart) the
  list of sub-messages.
\<close>

datatype msg = Message (headers: "(string \<times> string) list") (get_content_type: string)
    (get_payload: payload)
  and payload = Text string | Parts "msg list"

subsection \<open>Python built-ins used by the reader\<close>

definition is_digit :: "char \<Rightarrow> bool" where
  "is_digit c = (48 \<le> (of_char c :: nat) \<and> (of_char c :: nat) \<le> 57)"

definition digit_of :: "char \<Rightarrow> nat" where
  "digit_of c = (of_char c :: nat) - 48"

text \<open>Digits with single underscores between them, as \<^verbatim>\<open>int()\<close> accepts.\<close>

fun digits_val :: "nat \<Rightarrow> string \<Rightarrow> nat option" where
  "digits_val acc [] = Some acc"
| "digits_val acc (c # cs) =
     (if is_digit c then digits_val (acc * 10 + digit_of c) cs
      else if c = CHR ''_'' \<and> cs \<noteq> [] \<and> is_digit (hd cs) then digits_val acc cs
      else None)"

text \<open>
  The interpreter's limit on the conversion between integers and decimal strings
  (\<^verbatim>\<open>sys.int_info.default_max_str_digits\<close>): more digits, leading zeros counted and
  underscores not, are a \<^verbatim>\<open>ValueError\<close>.
\<close>

definition max_str_digits :: nat where
  "max_str_digits = 4300"

definition sized :: "string \<Rightarrow> nat option \<Rightarrow> nat option" where
  "sized ds v = (if length (filter is_digit ds) \<le> max_str_digits then v else None)"

text \<open>
  \<^verbatim>\<open>int(token)\<close> on a token without white space: an optional sign, then digits.
  \<open>None\<close> is the \<^verbatim>\<open>ValueError\<close> of Python.
\<close>

definition py_int :: "string \<Rightarrow> int option" where
  "py_int s =
     (case s of
        [] \<Rightarrow> None
      | c # cs \<Rightarrow>
          if c = CHR ''-'' then
            (if cs \<noteq> [] \<and> is_digit (hd cs)
             then map_option (\<lambda>n. - int n) (sized cs (digits_val 0 cs)) else None)
          else if c = CHR ''+'' then
            (if cs \<noteq> [] \<and> is_digit (hd cs)
             then map_option int (sized cs (digits_val 0 cs)) else None)
          else if is_digit c then map_option int (sized s (digits_val 0 s))
          else None)"

definition digit_char :: "nat \<Rightarrow> char" where
  "digit_char d = char_of (48 + d)"

fun str_nat :: "nat \<Rightarrow> string" where
  "str_nat n = (if n < 10 then [digit_char n] else str_nat (n div 10) @ [digit_char (n mod 10)])"

declare str_nat.simps [simp del]

text \<open>
  \<^verbatim>\<open>str\<close> of an integer. The integers it is applied to are values of \<^verbatim>\<open>_last_id\<close>, which
  \<^verbatim>\<open>int()\<close> produced from at most \<open>max_str_digits\<close> digits.
\<close>

definition str_int :: "int \<Rightarrow> string" where
  "str_int i = (if i < 0 then CHR ''-'' # str_nat (nat (- i)) else str_nat (nat i))"

text \<open>\<^verbatim>\<open>str(self._last_id)\<close>: the attribute may still be \<^verbatim>\<open>None\<close>.\<close>

definition str_last :: "int option \<Rightarrow> string" where
  "str_last l = (case l of None \<Rightarrow> ''None'' | Some i \<Rightarrow> str_int i)"

definition is_space :: "char \<Rightarrow> bool" where
  "is_space c = ((of_char c :: nat) = 32 \<or> (9 \<le> (of_char c :: nat) \<and> (of_char c :: nat) \<le> 13))"

text \<open>\<^verbatim>\<open>data[0].split()\<close>: the maximal runs of characters that are not white space.\<close>

fun split_acc :: "string \<Rightarrow> string \<Rightarrow> string list" where
  "split_acc cur [] = (if cur = [] then [] else [cur])"
| "split_acc cur (c # cs) =
     (if is_space c then (if cur = [] then split_acc [] cs else cur # split_acc [] cs)
      else split_acc (cur @ [c]) cs)"

definition bytes_split :: "string \<Rightarrow> string list" where
  "bytes_split s = split_acc [] s"

subsection \<open>The IMAP server, as one call sees it\<close>

text \<open>
  \<^verbatim>\<open>message_data\<close> of a fetch: \<^verbatim>\<open>None\<close>; a list whose first element is \<^verbatim>\<open>None\<close> (no
  message of that UID); a list whose first element is a line of bytes (a fetch answered
  \<^verbatim>\<open>NO\<close>, or an untagged line before the message); or a list whose first element is the
  pair that carries the raw message (here already parsed by \<^verbatim>\<open>email.message_from_bytes\<close>).
\<close>

datatype fetch_data = NoData | NoFirst | Line string | Data msg

text \<open>
  What the server answers on one connection during one call. For the login, \<open>None\<close> is
  the answer \<^verbatim>\<open>OK\<close>. For the selection, \<open>Inr True\<close> is the answer \<^verbatim>\<open>OK\<close> and \<open>Inr False\<close>
  the answer \<^verbatim>\<open>NO\<close>, which imaplib returns and does not raise. \<open>search_rsp\<close> gives
  \<^verbatim>\<open>data[0]\<close>, which imaplib leaves \<^verbatim>\<open>None\<close> when the server sent no untagged answer.
\<close>

record session =
  login_rsp :: "string \<Rightarrow> string \<Rightarrow> exn option"
  select_rsp :: "string \<Rightarrow> exn + bool"
  search_rsp :: "string \<Rightarrow> exn + string option"
  fetch_rsp :: "string \<Rightarrow> exn + fetch_data"

text \<open>
  The world during one call: the date, formatted \<^verbatim>\<open>%d-%b-%Y\<close>; what the constructor
  \<^verbatim>\<open>imaplib.IMAP4_SSL(server, port)\<close> does if it is called; and the answers of the server
  on the connections, numbered in the order of their construction.
\<close>

record world =
  today :: string
  open_rsp :: "exn option"
  conn :: "nat \<Rightarrow> session"

datatype cmd = Select string | Search string | Fetch string | Connect

fun is_search :: "cmd \<Rightarrow> bool" where
  "is_search (Search c) = True"
| "is_search _ = False"

subsection \<open>The connection object of imaplib\<close>

text \<open>
  An \<^verbatim>\<open>IMAP4_SSL\<close> object keeps the state of the protocol and refuses, with
  \<^verbatim>\<open>IMAP4.error\<close> and before anything is sent, a command that its state does not allow:
  \<^verbatim>\<open>LOGIN\<close> only in \<^verbatim>\<open>NONAUTH\<close>, \<^verbatim>\<open>SELECT\<close> in \<^verbatim>\<open>AUTH\<close> and \<^verbatim>\<open>SELECTED\<close>, \<^verbatim>\<open>UID\<close>, \<^verbatim>\<open>SEARCH\<close> and
  \<^verbatim>\<open>FETCH\<close> only in \<^verbatim>\<open>SELECTED\<close>. A new object, greeted with \<^verbatim>\<open>OK\<close>, is in \<^verbatim>\<open>NONAUTH\<close>.
\<close>

datatype imap_state = NONAUTH | AUTH | SELECTED

record imap4 =
  ident :: nat
  state :: imap_state

definition login :: "world \<Rightarrow> imap4 \<Rightarrow> string \<Rightarrow> string \<Rightarrow> exn option \<times> imap4" where
  "login w c u p =
     (if state c \<noteq> NONAUTH then (Some IMAP4_error, c)
      else
        (case login_rsp (conn w (ident c)) u p of
           Some e \<Rightarrow> (Some e, c)
         | None \<Rightarrow> (None, c\<lparr>state := AUTH\<rparr>)))"

definition select :: "world \<Rightarrow> imap4 \<Rightarrow> string \<Rightarrow> (exn + bool) \<times> imap4" where
  "select w c mailbox =
     (if state c = NONAUTH then (Inl IMAP4_error, c)
      else
        (case select_rsp (conn w (ident c)) mailbox of
           Inl e \<Rightarrow> (Inl e, c)
         | Inr ok \<Rightarrow> (Inr ok, c\<lparr>state := (if ok then SELECTED else AUTH)\<rparr>)))"

definition uid_search :: "world \<Rightarrow> imap4 \<Rightarrow> string \<Rightarrow> exn + string option" where
  "uid_search w c criterion =
     (if state c \<noteq> SELECTED then Inl IMAP4_error
      else search_rsp (conn w (ident c)) criterion)"

definition uid_fetch :: "world \<Rightarrow> imap4 \<Rightarrow> string \<Rightarrow> exn + fetch_data" where
  "uid_fetch w c message_uid =
     (if state c \<noteq> SELECTED then Inl IMAP4_error
      else fetch_rsp (conn w (ident c)) message_uid)"

subsection \<open>EmailReader\<close>

record reader =
  user :: string
  password :: string
  server :: string
  port :: nat
  folder :: string
  last_id :: "int option"
  unread_ids :: "string list"
  connection :: "imap4 option"

definition EmailReader :: "string \<Rightarrow> string \<Rightarrow> string \<Rightarrow> nat \<Rightarrow> string \<Rightarrow> reader" where
  "EmailReader u p s pt f =
     \<lparr>user = u, password = p, server = s, port = pt, folder = f,
      last_id = None, unread_ids = [], connection = None\<rparr>"

definition fresh :: "imap4 option \<Rightarrow> nat" where
  "fresh c = (case c of None \<Rightarrow> 0 | Some k \<Rightarrow> Suc (ident k))"

text \<open>
  \<^verbatim>\<open>connect\<close>: the constructor's result is stored before the login is tried; an
  \<^verbatim>\<open>IMAP4.error\<close> of either gives \<^verbatim>\<open>False\<close>, any other exception leaves the method.
\<close>

definition connect :: "world \<Rightarrow> reader \<Rightarrow> (exn + bool) \<times> reader" where
  "connect w r =
     (case open_rsp w of
        Some e \<Rightarrow> (if e = IMAP4_error then Inr False else Inl e, r)
      | None \<Rightarrow>
          (case login w \<lparr>ident = fresh (connection r), state = NONAUTH\<rparr> (user r) (password r) of
             (Some e, c) \<Rightarrow>
               (if e = IMAP4_error then Inr False else Inl e, r\<lparr>connection := Some c\<rparr>)
           | (None, c) \<Rightarrow> (Inr True, r\<lparr>connection := Some c\<rparr>)))"

text \<open>
  \<^verbatim>\<open>_fetch_message\<close>. Lines 115 and 116 raise on a first element that is a line of bytes:
  \<^verbatim>\<open>message_data[0][1]\<close> is an \<^verbatim>\<open>IndexError\<close> on a line of fewer than two bytes, and
  otherwise an integer, on which \<^verbatim>\<open>email.message_from_bytes\<close> raises \<^verbatim>\<open>AttributeError\<close>.
\<close>

definition fetch_message :: "world \<Rightarrow> reader \<Rightarrow> string \<Rightarrow> exn + msg option" where
  "fetch_message w r message_uid =
     (case connection r of
        None \<Rightarrow> Inl AttributeError
      | Some c \<Rightarrow>
          (case uid_fetch w c message_uid of
             Inl e \<Rightarrow> Inl e
           | Inr NoData \<Rightarrow> Inr None
           | Inr NoFirst \<Rightarrow> Inr None
           | Inr (Line bs) \<Rightarrow> Inl (if length bs < 2 then IndexError else AttributeError)
           | Inr (Data m) \<Rightarrow> Inr (Some m)))"

text \<open>The search string of lines 125 to 127.\<close>

definition search_criterion :: "world \<Rightarrow> reader \<Rightarrow> string" where
  "search_criterion w r =
     (case last_id r of
        None \<Rightarrow> ''SINCE '' @ today w
      | Some i \<Rightarrow> ''UID '' @ str_int i @ '':*'')"

text \<open>
  Lines 124 to 130: the queue is refilled only when it is empty. The result is the
  exception or the reader with the new queue, and the commands issued.
\<close>

definition refill :: "world \<Rightarrow> reader \<Rightarrow> imap4 \<Rightarrow> (exn + reader) \<times> cmd list" where
  "refill w r c =
     (if unread_ids r = [] then
        (case uid_search w c (search_criterion w r) of
           Inl e \<Rightarrow> (Inl e, [Search (search_criterion w r)])
         | Inr None \<Rightarrow> (Inl AttributeError, [Search (search_criterion w r)])
         | Inr (Some d) \<Rightarrow> (Inr (r\<lparr>unread_ids := bytes_split d\<rparr>), [Search (search_criterion w r)]))
      else (Inr r, []))"

text \<open>
  The \<^verbatim>\<open>while\<close> loop of lines 132 to 136 over the queue: \<open>Hit u n us\<close> when the token
  \<open>u\<close>, of value \<open>n\<close>, is the first that is accepted, \<open>us\<close> being left in the queue;
  \<open>Miss\<close> when the queue ran empty; \<open>Bad us\<close> when \<^verbatim>\<open>int\<close> raised on a token.
\<close>

datatype scan = Hit string int "string list" | Miss | Bad "string list"

fun scan_unread :: "int option \<Rightarrow> string list \<Rightarrow> scan" where
  "scan_unread l [] = Miss"
| "scan_unread l (u # us) =
     (case py_int u of
        None \<Rightarrow> Bad us
      | Some n \<Rightarrow>
          if (case l of None \<Rightarrow> True | Some i \<Rightarrow> n > i) then Hit u n us
          else scan_unread l us)"

text \<open>The body of the \<^verbatim>\<open>try\<close> of \<^verbatim>\<open>read_next\<close>, lines 122 to 138.\<close>

definition read_body :: "world \<Rightarrow> reader \<Rightarrow> (exn + msg option) \<times> reader \<times> cmd list" where
  "read_body w r =
     (case connection r of
        None \<Rightarrow> (Inl AttributeError, r, [])
      | Some c \<Rightarrow>
          (case select w c (folder r) of
             (Inl e, c1) \<Rightarrow> (Inl e, r\<lparr>connection := Some c1\<rparr>, [Select (folder r)])
           | (Inr ok, c1) \<Rightarrow>
               (case refill w (r\<lparr>connection := Some c1\<rparr>) c1 of
                  (Inl e, cs) \<Rightarrow> (Inl e, r\<lparr>connection := Some c1\<rparr>, Select (folder r) # cs)
                | (Inr r1, cs) \<Rightarrow>
                    (case scan_unread (last_id r1) (unread_ids r1) of
                       Bad us \<Rightarrow>
                         (Inl ValueError, r1\<lparr>unread_ids := us\<rparr>, Select (folder r) # cs)
                     | Hit u n us \<Rightarrow>
                         (let r2 = r1\<lparr>last_id := Some n, unread_ids := us\<rparr> in
                          (fetch_message w r2 u, r2, Select (folder r) # cs @ [Fetch u]))
                     | Miss \<Rightarrow>
                         (let r2 = r1\<lparr>unread_ids := []\<rparr> in
                          (fetch_message w r2 (str_last (last_id r2)), r2,
                           Select (folder r) # cs @ [Fetch (str_last (last_id r2))]))))))"

text \<open>
  The handler of lines 140 to 152. The value of \<^verbatim>\<open>connect()\<close> is not looked at, and the
  folder is not selected on the connection before the fetch of line 148; an
  \<^verbatim>\<open>IMAP4.error\<close> inside the inner \<^verbatim>\<open>try\<close> ends in \<^verbatim>\<open>return None\<close>.
\<close>

definition reconnect :: "world \<Rightarrow> reader \<Rightarrow> (exn + msg option) \<times> reader \<times> cmd list" where
  "reconnect w r =
     (case connect w r of
        (Inl e, r1) \<Rightarrow> (if e = IMAP4_error then Inr None else Inl e, r1, [Connect])
      | (Inr b, r1) \<Rightarrow>
          (case last_id r1 of
             None \<Rightarrow> (Inr None, r1, [Connect])
           | Some i \<Rightarrow>
               (case fetch_message w r1 (str_int i) of
                  Inl e \<Rightarrow>
                    (if e = IMAP4_error then Inr None else Inl e, r1, [Connect, Fetch (str_int i)])
                | Inr m \<Rightarrow> (Inr m, r1, [Connect, Fetch (str_int i)]))))"

definition read_next :: "world \<Rightarrow> reader \<Rightarrow> (exn + msg option) \<times> reader \<times> cmd list" where
  "read_next w r =
     (case read_body w r of
        (Inl e, r1, cs) \<Rightarrow>
          (if e = IMAP4_error then
             (case reconnect w r1 of (res, r2, cs') \<Rightarrow> (res, r2, cs @ cs'))
           else (Inl e, r1, cs))
      | (Inr m, r1, cs) \<Rightarrow> (Inr m, r1, cs))"

text \<open>A session: one \<^verbatim>\<open>read_next\<close> per tick, whatever the previous one returned or raised.\<close>

fun polls :: "world list \<Rightarrow> reader \<Rightarrow> reader" where
  "polls [] r = r"
| "polls (w # ws) r = polls ws (fst (snd (read_next w r)))"

text \<open>The order on \<^verbatim>\<open>_last_id\<close>: \<^verbatim>\<open>None\<close> below every UID.\<close>

fun uid_le :: "int option \<Rightarrow> int option \<Rightarrow> bool" where
  "uid_le None _ = True"
| "uid_le (Some a) None = False"
| "uid_le (Some a) (Some b) = (a \<le> b)"

subsection \<open>Constants\<close>

text \<open>
  Modelled from the spec: the constants \<^verbatim>\<open>CONTENT_TYPE_TEXT_PLAIN\<close> and \<^verbatim>\<open>ATTR_DATE\<close> are
  imported from \<^verbatim>\<open>homeassistant.const\<close>, which is not among the sources; the spec names
  the content type \<^verbatim>\<open>text/plain\<close> and the attribute \<^verbatim>\<open>date\<close>. The other three are
  lines 34 to 36 of the file.
\<close>

definition CONTENT_TYPE_TEXT_PLAIN :: string where
  "CONTENT_TYPE_TEXT_PLAIN = ''text/plain''"

definition ATTR_DATE :: string where
  "ATTR_DATE = ''date''"

definition ATTR_FROM :: string where
  "ATTR_FROM = ''from''"

definition ATTR_BODY :: string where
  "ATTR_BODY = ''body''"

definition ATTR_SUBJECT :: string where
  "ATTR_SUBJECT = ''subject''"

subsection \<open>Strings and headers\<close>

text \<open>Strings of the model are ASCII text; \<^verbatim>\<open>upper\<close> and \<^verbatim>\<open>lower\<close> act on the letters.\<close>

definition upper_char :: "char \<Rightarrow> char" where
  "upper_char c =
     (if 97 \<le> (of_char c :: nat) \<and> (of_char c :: nat) \<le> 122
      then char_of ((of_char c :: nat) - 32) else c)"

definition lower_char :: "char \<Rightarrow> char" where
  "lower_char c =
     (if 65 \<le> (of_char c :: nat) \<and> (of_char c :: nat) \<le> 90
      then char_of ((of_char c :: nat) + 32) else c)"

definition upper :: "string \<Rightarrow> string" where
  "upper s = map upper_char s"

definition lower :: "string \<Rightarrow> string" where
  "lower s = map lower_char s"

definition startswith :: "string \<Rightarrow> string \<Rightarrow> bool" where
  "startswith s p = (take (length p) s = p)"

definition strip :: "string \<Rightarrow> string" where
  "strip s = rev (dropWhile is_space (rev (dropWhile is_space s)))"

text \<open>
  \<^verbatim>\<open>email_message[name]\<close>: the value of the first header of that name, the case of the
  name ignored, or \<^verbatim>\<open>None\<close>.
\<close>

definition get_header :: "msg \<Rightarrow> string \<Rightarrow> string option" where
  "get_header m n = map_option snd (find (\<lambda>kv. lower (fst kv) = lower n) (headers m))"

text \<open>
  \<^verbatim>\<open>email.utils.parseaddr\<close> of the standard library returns the pair of empty strings
  for a field that is not a string, here the \<^verbatim>\<open>None\<close> of an absent header. How it parses
  a header that is present is the library's, the parameter \<open>pa\<close>.
\<close>

definition parseaddr :: "(string \<Rightarrow> string \<times> string) \<Rightarrow> string option \<Rightarrow> string \<times> string" where
  "parseaddr pa field = (case field of None \<Rightarrow> ([], []) | Some s \<Rightarrow> pa s)"

subsection \<open>EmailContentSensor\<close>

datatype pyval = Str string | NoneVal | Body payload

type_synonym dict = "(string \<times> pyval) list"

record sensor =
  email_reader :: reader
  name :: string
  allowed_senders :: "string list"
  value_template :: "(dict \<Rightarrow> exn + string) option"
  sensor_last_id :: "int option"
  message :: "string option"
  state_attributes :: "dict option"
  connected :: bool

text \<open>\<^verbatim>\<open>__init__\<close>: the allowed senders are put in upper case, then \<^verbatim>\<open>connect()\<close> is called.\<close>

definition EmailContentSensor ::
  "world \<Rightarrow> reader \<Rightarrow> string \<Rightarrow> string list \<Rightarrow> (dict \<Rightarrow> exn + string) option \<Rightarrow> exn + sensor" where
  "EmailContentSensor w rd nm senders tmpl =
     (case connect w rd of
        (Inl e, rd') \<Rightarrow> Inl e
      | (Inr b, rd') \<Rightarrow>
          Inr \<lparr>email_reader = rd', name = nm, allowed_senders = map upper senders,
               value_template = tmpl, sensor_last_id = None, message = None,
               state_attributes = None, connected = b\<rparr>)"

definition get_msg_sender :: "(string \<Rightarrow> string \<times> string) \<Rightarrow> msg \<Rightarrow> string" where
  "get_msg_sender pa m = snd (parseaddr pa (get_header m ''From''))"

definition sender_allowed :: "(string \<Rightarrow> string \<times> string) \<Rightarrow> sensor \<Rightarrow> msg \<Rightarrow> bool" where
  "sender_allowed pa s m = (upper (get_msg_sender pa m) \<in> set (allowed_senders s))"

text \<open>
  \<^verbatim>\<open>get_msg_subject\<close>: \<^verbatim>\<open>decode_header\<close> raises \<^verbatim>\<open>TypeError\<close> on \<^verbatim>\<open>None\<close>; the decoding of
  the encoded words of a header that is present is the library's, the parameter \<open>dec\<close>.
\<close>

definition get_msg_subject :: "(string \<Rightarrow> exn + string) \<Rightarrow> msg \<Rightarrow> exn + string" where
  "get_msg_subject dec m =
     (case get_header m ''Subject'' of None \<Rightarrow> Inl TypeError | Some h \<Rightarrow> dec h)"

subsection \<open>The base64 methods\<close>

text \<open>
  \<^verbatim>\<open>base64.b64decode\<close> and \<^verbatim>\<open>base64.b64encode\<close> of the standard library, on bytes as
  numbers below 256. The decoder is the lenient one of \<^verbatim>\<open>binascii.a2b_base64\<close>: a
  character outside the alphabet is skipped, a pad that completes a group of four ends the
  input, and an unfinished group is the \<^verbatim>\<open>binascii.Error\<close> (here \<open>None\<close>). Its state is
  the position \<open>q\<close> in the group, the bits left over \<open>l\<close> and the pads counted \<open>p\<close>.
\<close>

definition b64_chars :: string where
  "b64_chars = ''ABCDEFGHIJKLMNOPQRSTUVWXYZabcdefghijklmnopqrstuvwxyz0123456789+/''"

fun index_of :: "'a \<Rightarrow> 'a list \<Rightarrow> nat option" where
  "index_of x [] = None"
| "index_of x (y # ys) = (if x = y then Some 0 else map_option Suc (index_of x ys))"

fun a2b_base64 :: "nat \<Rightarrow> nat \<Rightarrow> nat \<Rightarrow> string \<Rightarrow> nat list option" where
  "a2b_base64 q l p [] = (if q \<noteq> 0 then None else Some [])"
| "a2b_base64 q l p (c # cs) =
     (if c = CHR ''='' then
        (if 2 \<le> q \<and> 4 \<le> q + (p + 1) then Some []
         else a2b_base64 q l (if 2 \<le> q then p + 1 else p) cs)
      else
        (case index_of c b64_chars of
           None \<Rightarrow> a2b_base64 q l p cs
         | Some v \<Rightarrow>
             if q = 0 then a2b_base64 1 v 0 cs
             else if q = 1 then
               map_option ((#) (l * 4 + v div 16)) (a2b_base64 2 (v mod 16) 0 cs)
             else if q = 2 then
               map_option ((#) (l * 16 + v div 4)) (a2b_base64 3 (v mod 4) 0 cs)
             else map_option ((#) (l * 64 + v)) (a2b_base64 0 0 0 cs)))"

definition b64decode :: "string \<Rightarrow> nat list option" where
  "b64decode s = a2b_base64 0 0 0 s"

definition b64_char :: "nat \<Rightarrow> char" where
  "b64_char v = b64_chars ! v"

fun b64encode :: "nat list \<Rightarrow> string" where
  "b64encode [] = []"
| "b64encode [a] = [b64_char (a div 4), b64_char ((a mod 4) * 16), CHR ''='', CHR ''='']"
| "b64encode [a, b] =
     [b64_char (a div 4), b64_char ((a mod 4) * 16 + b div 16), b64_char ((b mod 16) * 4),
      CHR ''='']"
| "b64encode (a # b # c # bs) =
     [b64_char (a div 4), b64_char ((a mod 4) * 16 + b div 16),
      b64_char ((b mod 16) * 4 + c div 64), b64_char (c mod 64)] @ b64encode bs"

definition is_ascii :: "char \<Rightarrow> bool" where
  "is_ascii c = ((of_char c :: nat) < 128)"

text \<open>
  The methods \<^verbatim>\<open>is_base64(self, message_text)\<close> and \<^verbatim>\<open>get_plain_text(self, message_text)\<close>
  of lines 250 to 271, \<^verbatim>\<open>self\<close> left out as neither reads it. Every exception inside
  them (a character that is not ASCII, a payload that is a list, a decoding error) ends in
  \<^verbatim>\<open>False\<close>, or in the fixed text.
\<close>

definition is_base64 :: "payload \<Rightarrow> bool" where
  "is_base64 txt =
     (case txt of
        Parts ms \<Rightarrow> False
      | Text s \<Rightarrow>
          if list_all is_ascii s then
            (case b64decode s of None \<Rightarrow> False | Some bs \<Rightarrow> b64encode bs = s)
          else False)"

definition get_plain_text :: "payload \<Rightarrow> string" where
  "get_plain_text txt =
     (case txt of
        Parts ms \<Rightarrow> ''Could Not Convert From Base64''
      | Text s \<Rightarrow>
          if list_all is_ascii s then
            (case b64decode s of
               None \<Rightarrow> ''Could Not Convert From Base64''
             | Some bs \<Rightarrow>
                 if list_all (\<lambda>b. b < 128) bs then map char_of bs
                 else ''Could Not Convert From Base64'')
          else ''Could Not Convert From Base64'')"

subsection \<open>The message text\<close>

text \<open>\<^verbatim>\<open>walk()\<close>: the message itself, then the walk of each of its parts, in order.\<close>

fun walk :: "msg \<Rightarrow> msg list"
  and walk_payload :: "payload \<Rightarrow> msg list"
  and walk_list :: "msg list \<Rightarrow> msg list" where
  "walk (Message h ct p) = Message h ct p # walk_payload p"
| "walk_payload (Text s) = []"
| "walk_payload (Parts ms) = walk_list ms"
| "walk_list [] = []"
| "walk_list (m # ms) = walk m @ walk_list ms"

record texts =
  message_text :: "payload option"
  message_html :: "payload option"
  message_untyped_text :: "payload option"

text \<open>
  The loop of \<^verbatim>\<open>get_msg_text\<close>, lines 224 to 237. In the \<^verbatim>\<open>text/plain\<close> branch line 228
  evaluates the name \<^verbatim>\<open>is_base64\<close>. The function is a static method, so the name is
  looked up among the globals of the module and the built-ins; \<^verbatim>\<open>is_base64\<close> (lines 250
  to 261) and \<^verbatim>\<open>get_plain_text\<close> (lines 263 to 271) are defined in the body of the class,
  with a \<^verbatim>\<open>self\<close> parameter, and the module binds neither name. The lookup raises
  \<^verbatim>\<open>NameError\<close>, after line 227 has assigned the local variable, and the two methods
  above are never reached.
\<close>

fun scan_parts :: "msg list \<Rightarrow> texts \<Rightarrow> exn + texts" where
  "scan_parts [] t = Inr t"
| "scan_parts (part # parts) t =
     (if get_content_type part = CONTENT_TYPE_TEXT_PLAIN then Inl NameError
      else if get_content_type part = ''text/html'' then
        scan_parts parts
          (if message_html t = None then t\<lparr>message_html := Some (get_payload part)\<rparr> else t)
      else if startswith (get_content_type part) ''text'' \<and> message_untyped_text t = None then
        scan_parts parts (t\<lparr>message_untyped_text := Some (get_payload part)\<rparr>)
      else scan_parts parts t)"

definition get_msg_text :: "msg \<Rightarrow> exn + payload" where
  "get_msg_text m =
     (case scan_parts (walk m)
             \<lparr>message_text = None, message_html = None, message_untyped_text = None\<rparr> of
        Inl e \<Rightarrow> Inl e
      | Inr t \<Rightarrow>
          (case message_text t of
             Some x \<Rightarrow> Inr x
           | None \<Rightarrow>
               (case message_html t of
                  Some x \<Rightarrow> Inr x
                | None \<Rightarrow>
                    (case message_untyped_text t of
                       Some x \<Rightarrow> Inr x
                     | None \<Rightarrow> Inr (get_payload m)))))"

text \<open>
  The dictionary literal of lines 187 to 192 and of lines 289 to 294: the four values
  are computed in this order.
\<close>

definition msg_fields ::
  "(string \<Rightarrow> string \<times> string) \<Rightarrow> (string \<Rightarrow> exn + string) \<Rightarrow> msg \<Rightarrow> exn + dict" where
  "msg_fields pa dec m =
     (case get_msg_subject dec m of
        Inl e \<Rightarrow> Inl e
      | Inr subj \<Rightarrow>
          (case get_msg_text m of
             Inl e \<Rightarrow> Inl e
           | Inr body \<Rightarrow>
               Inr [(ATTR_FROM, Str (get_msg_sender pa m)),
                    (ATTR_SUBJECT, Str subj),
                    (ATTR_DATE, (case get_header m ''Date'' of None \<Rightarrow> NoneVal | Some d \<Rightarrow> Str d)),
                    (ATTR_BODY, Body body)]))"

definition render_template ::
  "(string \<Rightarrow> string \<times> string) \<Rightarrow> (string \<Rightarrow> exn + string) \<Rightarrow> (dict \<Rightarrow> exn + string) \<Rightarrow> msg
     \<Rightarrow> exn + string" where
  "render_template pa dec tmpl m =
     (case msg_fields pa dec m of Inl e \<Rightarrow> Inl e | Inr variables \<Rightarrow> tmpl variables)"

text \<open>
  \<^verbatim>\<open>update\<close>: the exception that leaves the method if any, the sensor as the method
  leaves it, and the commands of the reader.
\<close>

definition update ::
  "(string \<Rightarrow> string \<times> string) \<Rightarrow> (string \<Rightarrow> exn + string) \<Rightarrow> world \<Rightarrow> sensor
     \<Rightarrow> exn option \<times> sensor \<times> cmd list" where
  "update pa dec w s =
     (case read_next w (email_reader s) of
        (Inl e, rd, cs) \<Rightarrow> (Some e, s\<lparr>email_reader := rd\<rparr>, cs)
      | (Inr None, rd, cs) \<Rightarrow>
          (None, s\<lparr>email_reader := rd, message := None, state_attributes := Some []\<rparr>, cs)
      | (Inr (Some email_message), rd, cs) \<Rightarrow>
          (let s1 = s\<lparr>email_reader := rd\<rparr> in
           if sender_allowed pa s1 email_message then
             (case get_msg_subject dec email_message of
                Inl e \<Rightarrow> (Some e, s1, cs)
              | Inr subj \<Rightarrow>
                  (case (case value_template s1 of
                           None \<Rightarrow> Inr subj
                         | Some tmpl \<Rightarrow> render_template pa dec tmpl email_message) of
                     Inl e \<Rightarrow> (Some e, s1, cs)
                   | Inr msg_str \<Rightarrow>
                       (let s2 = s1\<lparr>message := Some msg_str\<rparr> in
                        case msg_fields pa dec email_message of
                          Inl e \<Rightarrow> (Some e, s2, cs)
                        | Inr d \<Rightarrow> (None, s2\<lparr>state_attributes := Some d\<rparr>, cs))))
           else (None, s1, cs)))"

subsection \<open>setup\_platform\<close>

record config =
  conf_name :: "string option"
  conf_username :: string
  conf_password :: string
  conf_server :: string
  conf_port :: nat
  conf_folder :: string
  conf_senders :: "string list"
  conf_value_template :: "(dict \<Rightarrow> exn + string) option"

text \<open>
  \<^verbatim>\<open>setup_platform\<close>: the entities handed to \<^verbatim>\<open>add_entities\<close>, none when the call is
  skipped.
\<close>

definition setup_platform :: "world \<Rightarrow> config \<Rightarrow> exn + sensor list" where
  "setup_platform w c =
     (case EmailContentSensor w
             (EmailReader (conf_username c) (conf_password c) (conf_server c) (conf_port c)
                (conf_folder c))
             (case conf_name c of
                None \<Rightarrow> conf_username c
              | Some n \<Rightarrow> if n = [] then conf_username c else n)
             (conf_senders c) (conf_value_template c) of
        Inl e \<Rightarrow> Inl e
      | Inr s \<Rightarrow> if connected s then Inr [s] else Inr [])"

subsection \<open>Sample mailboxes\<close>

text \<open>
  A server that accepts the login and the selection, answers every search with the UIDs
  \<open>ids\<close> and every fetch as \<open>f\<close> says.
\<close>

definition box :: "string \<Rightarrow> (string \<Rightarrow> exn + fetch_data) \<Rightarrow> session" where
  "box ids f =
     \<lparr>login_rsp = (\<lambda>u p. None), select_rsp = (\<lambda>fd. Inr True),
      search_rsp = (\<lambda>c. Inr (Some ids)), fetch_rsp = f\<rparr>"

text \<open>A connection that was lost: every command raises \<^verbatim>\<open>IMAP4.abort\<close>.\<close>

definition lost :: session where
  "lost =
     \<lparr>login_rsp = (\<lambda>u p. Some IMAP4_error), select_rsp = (\<lambda>fd. Inl IMAP4_error),
      search_rsp = (\<lambda>c. Inl IMAP4_error), fetch_rsp = (\<lambda>u. Inl IMAP4_error)\<rparr>"

text \<open>A server that refuses the login.\<close>

definition locked :: session where
  "locked =
     \<lparr>login_rsp = (\<lambda>u p. Some IMAP4_error), select_rsp = (\<lambda>fd. Inr True),
      search_rsp = (\<lambda>c. Inr (Some [])), fetch_rsp = (\<lambda>u. Inr NoFirst)\<rparr>"

text \<open>A server whose connection breaks during the login: the socket raises \<^verbatim>\<open>OSError\<close>.\<close>

definition dropped :: session where
  "dropped =
     \<lparr>login_rsp = (\<lambda>u p. Some OSError), select_rsp = (\<lambda>fd. Inl OSError),
      search_rsp = (\<lambda>c. Inl OSError), fetch_rsp = (\<lambda>u. Inl OSError)\<rparr>"

definition day :: "exn option \<Rightarrow> (nat \<Rightarrow> session) \<Rightarrow> world" where
  "day o_rsp cn = \<lparr>today = ''04-Nov-2026'', open_rsp = o_rsp, conn = cn\<rparr>"

text \<open>
  A reader that holds its first connection, with the folder selected by an earlier poll,
  and has seen the UID \<open>l\<close>.
\<close>

definition inbox :: "int option \<Rightarrow> reader" where
  "inbox l =
     \<lparr>user = ''jane'', password = ''secret'', server = ''imap.example.com'', port = 993,
      folder = ''INBOX'', last_id = l, unread_ids = [],
      connection = Some \<lparr>ident = 0, state = SELECTED\<rparr>\<rparr>"

definition mail :: "string \<Rightarrow> msg" where
  "mail sender =
     Message [(''From'', sender), (''Subject'', ''Alarm''), (''Date'', ''Wed, 04 Nov 2026'')]
       ''text/html'' (Text ''<p>Door open</p>'')"

definition settings :: config where
  "settings =
     \<lparr>conf_name = None, conf_username = ''jane'', conf_password = ''secret'',
      conf_server = ''imap.example.com'', conf_port = 993, conf_folder = ''INBOX'',
      conf_senders = [''JANE@EXAMPLE.COM''], conf_value_template = None\<rparr>"

text \<open>A sensor that published an earlier message and lets one sender in.\<close>

definition watcher :: sensor where
  "watcher =
     \<lparr>email_reader = inbox None, name = ''jane'', allowed_senders = [''JANE@EXAMPLE.COM''],
      value_template = None, sensor_last_id = None, message = Some ''Alarm'',
      state_attributes = Some [(ATTR_FROM, Str ''jane@example.com'')], connected = True\<rparr>"

text \<open>
  An address parser for the headers of the examples: \<^verbatim>\<open>name <address>\<close> gives the name and
  the address between the angle brackets, any other header is taken as a bare address.
  On the headers used below it returns what \<^verbatim>\<open>email.utils.parseaddr\<close> returns.
\<close>

definition angle_addr :: "string \<Rightarrow> string \<times> string" where
  "angle_addr s =
     (if CHR ''<'' \<in> set s then
        (strip (takeWhile (\<lambda>c. c \<noteq> CHR ''<'') s),
         takeWhile (\<lambda>c. c \<noteq> CHR ''>'') (tl (dropWhile (\<lambda>c. c \<noteq> CHR ''<'') s)))
      else ([], strip s))"

section \<open>Properties\<close>

subsection \<open>Facts about the reader\<close>

lemma uid_le_refl: "uid_le a a"
  by (cases a) simp_all

lemma uid_le_trans: "uid_le a b \<Longrightarrow> uid_le b c \<Longrightarrow> uid_le a c"
  by (cases a; cases b; cases c) simp_all

lemma scan_unread_mono: "scan_unread l us = Hit u n us' \<Longrightarrow> uid_le l (Some n)"
  by (induction us) (auto split: option.splits if_splits)

lemma scan_unread_miss:
  "list_all (\<lambda>t. case py_int t of None \<Rightarrow> False | Some n \<Rightarrow> n \<le> U) ts \<Longrightarrow>
   scan_unread (Some U) ts = Miss"
  by (induction ts) (auto split: option.splits)

lemma refill_last_id: "refill w r c = (Inr r1, cs) \<Longrightarrow> last_id r1 = last_id r"
  by (auto simp: refill_def split: if_splits sum.splits option.splits)

lemma refill_empty:
  "unread_ids r = [] \<Longrightarrow> snd (refill w r c) = [Search (search_criterion w r)]"
  by (simp add: refill_def split: sum.splits option.splits)

lemma connect_last_id: "last_id (snd (connect w r)) = last_id r"
  by (simp add: connect_def split: option.splits prod.splits)

lemma connect_ok:
  "open_rsp w = None \<Longrightarrow>
   login_rsp (conn w (fresh (connection r))) (user r) (password r) = None \<Longrightarrow>
   connect w r =
     (Inr True, r\<lparr>connection := Some \<lparr>ident = fresh (connection r), state = AUTH\<rparr>\<rparr>)"
  by (simp add: connect_def login_def)

lemma connect_true_state:
  "fst (connect w r) = Inr True \<Longrightarrow>
   connection (snd (connect w r)) = Some \<lparr>ident = fresh (connection r), state = AUTH\<rparr>"
  by (auto simp: connect_def login_def split: option.splits if_splits)

lemma read_body_mono: "uid_le (last_id r) (last_id (fst (snd (read_body w r))))"
proof (cases "connection r")
  case None
  then show ?thesis by (simp add: read_body_def uid_le_refl)
next
  case (Some c)
  note held = this
  obtain sel c1 where s: "select w c (folder r) = (sel, c1)" by (cases "select w c (folder r)")
  show ?thesis
  proof (cases sel)
    case (Inl e)
    with held s show ?thesis by (simp add: read_body_def uid_le_refl)
  next
    case (Inr ok)
    note selected = this
    obtain res cs where rf: "refill w (r\<lparr>connection := Some c1\<rparr>) c1 = (res, cs)"
      by (cases "refill w (r\<lparr>connection := Some c1\<rparr>) c1")
    show ?thesis
    proof (cases res)
      case (Inl e)
      with rf selected s held show ?thesis by (simp add: read_body_def uid_le_refl)
    next
      case (Inr r1)
      with rf have l1: "last_id r1 = last_id r" using refill_last_id by fastforce
      show ?thesis
      proof (cases "scan_unread (last_id r1) (unread_ids r1)")
        case (Hit u n us)
        then have "uid_le (last_id r) (Some n)" using scan_unread_mono l1 by metis
        with Hit Inr rf selected s held show ?thesis by (simp add: read_body_def Let_def)
      next
        case Miss
        with Inr rf selected s held l1 show ?thesis
          by (simp add: read_body_def Let_def uid_le_refl)
      next
        case (Bad us)
        with Inr rf selected s held l1 show ?thesis by (simp add: read_body_def uid_le_refl)
      qed
    qed
  qed
qed

lemma read_body_no_connect: "Connect \<notin> set (snd (snd (read_body w r)))"
  by (auto simp: read_body_def refill_def Let_def
      split: option.splits sum.splits prod.splits scan.splits if_splits)

lemma read_body_searches:
  assumes "unread_ids r = []" "connection r = Some c" "fst (select w c (folder r)) = Inr ok"
  shows "filter is_search (snd (snd (read_body w r))) = [Search (search_criterion w r)]"
proof -
  obtain c1 where s: "select w c (folder r) = (Inr ok, c1)"
    using assms(3) by (cases "select w c (folder r)") simp
  obtain res cs where rf: "refill w (r\<lparr>connection := Some c1\<rparr>) c1 = (res, cs)"
    by (cases "refill w (r\<lparr>connection := Some c1\<rparr>) c1")
  with assms(1) have cs: "cs = [Search (search_criterion w r)]"
    using refill_empty [of "r\<lparr>connection := Some c1\<rparr>" w c1] by (simp add: search_criterion_def)
  show ?thesis using assms(2) s rf cs
    by (simp add: read_body_def Let_def split: sum.splits scan.splits)
qed

lemma reconnect_last_id: "last_id (fst (snd (reconnect w r))) = last_id r"
proof -
  obtain res r1 where c: "connect w r = (res, r1)" by (cases "connect w r")
  then have "last_id r1 = last_id r" using connect_last_id [of w r] by simp
  with c show ?thesis
    by (auto simp: reconnect_def split: sum.splits option.splits)
qed

lemma reconnect_no_search: "filter is_search (snd (snd (reconnect w r))) = []"
  by (auto simp: reconnect_def split: prod.splits sum.splits option.splits)

lemma reconnect_one_connect: "count_list (snd (snd (reconnect w r))) Connect = 1"
  by (auto simp: reconnect_def split: prod.splits sum.splits option.splits)

lemma count_list_absent: "x \<notin> set xs \<Longrightarrow> count_list xs x = 0"
  by (induction xs) auto

lemma read_next_error_path:
  "read_body w r = (Inl IMAP4_error, r1, cs) \<Longrightarrow>
   read_next w r =
     (fst (reconnect w r1), fst (snd (reconnect w r1)), cs @ snd (snd (reconnect w r1)))"
  by (simp add: read_next_def split: prod.splits)

lemma read_next_mono: "uid_le (last_id r) (last_id (fst (snd (read_next w r))))"
proof -
  obtain res r1 cs where b: "read_body w r = (res, r1, cs)" by (cases "read_body w r")
  then have m: "uid_le (last_id r) (last_id r1)" using read_body_mono [of r w] by simp
  obtain res' r2 cs' where rc: "reconnect w r1 = (res', r2, cs')" by (cases "reconnect w r1")
  then have "last_id r2 = last_id r1" using reconnect_last_id [of w r1] by simp
  with b rc m show ?thesis
    by (cases res) (simp_all add: read_next_def)
qed

lemma polls_mono: "uid_le (last_id r) (last_id (polls ws r))"
proof (induction ws arbitrary: r)
  case Nil
  show ?case by (simp add: uid_le_refl)
next
  case (Cons w ws)
  show ?case using read_next_mono [of r w] Cons.IH [of "fst (snd (read_next w r))"]
    by (simp add: uid_le_trans)
qed

lemma polls_append: "polls (ws @ ws') r = polls ws' (polls ws r)"
  by (induction ws arbitrary: r) simp_all

text \<open>
  Whatever \<^verbatim>\<open>int()\<close> returns has at most \<open>max_str_digits\<close> digits, so that \<^verbatim>\<open>str\<close> of a
  UID that was read never raises.
\<close>

lemma digit_of_le: "is_digit c \<Longrightarrow> digit_of c \<le> 9"
  by (auto simp: is_digit_def digit_of_def)

lemma digits_val_bound:
  "digits_val acc cs = Some n \<Longrightarrow> n < (acc + 1) * 10 ^ length (filter is_digit cs)"
proof (induction cs arbitrary: acc)
  case Nil
  then show ?case by simp
next
  case (Cons c cs)
  show ?case
  proof (cases "is_digit c")
    case True
    with Cons.prems have "digits_val (acc * 10 + digit_of c) cs = Some n" by simp
    then have "n < (acc * 10 + digit_of c + 1) * 10 ^ length (filter is_digit cs)"
      by (rule Cons.IH)
    moreover have "acc * 10 + digit_of c + 1 \<le> (acc + 1) * 10"
      using digit_of_le [OF True] by simp
    ultimately have "n < (acc + 1) * 10 * 10 ^ length (filter is_digit cs)"
      by (meson less_le_trans mult_le_mono1)
    then have "n < (acc + 1) * 10 ^ Suc (length (filter is_digit cs))"
      by (simp only: power_Suc mult.assoc)
    with True show ?thesis by simp
  next
    case False
    with Cons.prems have "digits_val acc cs = Some n" by (simp split: if_splits)
    then have "n < (acc + 1) * 10 ^ length (filter is_digit cs)" by (rule Cons.IH)
    with False show ?thesis by simp
  qed
qed

lemma sized_bound: "sized ds (digits_val 0 ds) = Some n \<Longrightarrow> n < 10 ^ max_str_digits"
proof -
  assume a: "sized ds (digits_val 0 ds) = Some n"
  then have le: "length (filter is_digit ds) \<le> max_str_digits" and d: "digits_val 0 ds = Some n"
    by (auto simp: sized_def split: if_splits)
  from digits_val_bound [OF d] have "n < 10 ^ length (filter is_digit ds)" by simp
  also have "\<dots> \<le> 10 ^ max_str_digits" using le by (simp add: power_increasing)
  finally show ?thesis .
qed

lemma py_int_bound:
  assumes "py_int s = Some i"
  shows "\<bar>i\<bar> < 10 ^ max_str_digits"
proof -
  obtain ds n where "sized ds (digits_val 0 ds) = Some n" and "\<bar>i\<bar> = int n"
    using assms by (auto simp: py_int_def simp del: digits_val.simps split: list.splits if_splits)
  then show ?thesis using sized_bound [of ds n] by simp
qed

lemma str_int_5: "str_int 5 = ''5''"
  by code_simp

subsection \<open>The last-seen UID\<close>

text \<open>
  C1: over every sequence of \<^verbatim>\<open>read_next\<close> calls of one reader, whatever the server
  answers and whether a call returns, raises or takes the reconnect path, \<^verbatim>\<open>_last_id\<close>
  never decreases and is never reset to \<^verbatim>\<open>None\<close>: its value after any prefix of the
  calls is below or equal to its value after any longer run.
\<close>

theorem last_id_non_decreasing:
  "uid_le (last_id (polls ws r)) (last_id (polls (ws @ ws') r))"
  by (simp add: polls_append polls_mono)

subsection \<open>Values used in the examples\<close>

lemma split_4: "bytes_split ''4'' = [''4'']"
  by code_simp

lemma int_4: "py_int ''4'' = Some 4"
  by code_simp

lemma split_7: "bytes_split ''7'' = [''7'']"
  by code_simp

lemma int_7: "py_int ''7'' = Some 7"
  by code_simp

lemma upper_jane: "upper ''jane@example.com'' = ''JANE@EXAMPLE.COM''"
  by code_simp

lemma upper_JANE: "upper ''JANE@EXAMPLE.COM'' = ''JANE@EXAMPLE.COM''"
  by code_simp

lemma upper_notjane: "upper ''notjane@example.com'' = ''NOTJANE@EXAMPLE.COM''"
  by code_simp

lemma upper_mallory: "upper ''mallory@example.org'' = ''MALLORY@EXAMPLE.ORG''"
  by code_simp

lemma sender_jane:
  "get_msg_sender angle_addr (mail ''Jane Doe <jane@example.com>'') = ''jane@example.com''"
  by code_simp

lemma sender_notjane:
  "get_msg_sender angle_addr (mail ''notjane@example.com'') = ''notjane@example.com''"
  by code_simp

lemma sender_mallory:
  "get_msg_sender angle_addr (mail ''Mallory <mallory@example.org>'') = ''mallory@example.org''"
  by code_simp

lemma no_from:
  "get_header (Message [(''Subject'', ''Alarm'')] ''text/html'' (Text ''<p>Door open</p>''))
     ''From'' = None"
  by code_simp

text \<open>
  Called as methods, the two base64 functions do what their names say: the text
  \<^verbatim>\<open>SGVsbG8=\<close> is recognised and decoded to \<^verbatim>\<open>Hello\<close>, and \<^verbatim>\<open>Hello world\<close> is not base64.
\<close>

lemma methods_on_hello:
  "is_base64 (Text ''SGVsbG8='') \<and> get_plain_text (Text ''SGVsbG8='') = ''Hello''
   \<and> \<not> is_base64 (Text ''Hello world'')"
  by code_simp

text \<open>
  Where no part of a message is \<^verbatim>\<open>text/plain\<close>, \<^verbatim>\<open>get_msg_text\<close> returns the payload of the
  first \<^verbatim>\<open>text/html\<close> part, else of the first part whose type starts with \<^verbatim>\<open>text\<close>, else
  the payload of the message itself.
\<close>

lemma scan_parts_no_plain:
  "list_all (\<lambda>p. get_content_type p \<noteq> CONTENT_TYPE_TEXT_PLAIN) ps \<Longrightarrow>
   scan_parts ps t =
     Inr (t\<lparr>message_html :=
              (case message_html t of
                 Some x \<Rightarrow> Some x
               | None \<Rightarrow> map_option get_payload
                           (find (\<lambda>p. get_content_type p = ''text/html'') ps)),
            message_untyped_text :=
              (case message_untyped_text t of
                 Some x \<Rightarrow> Some x
               | None \<Rightarrow> map_option get_payload
                           (find (\<lambda>p. get_content_type p \<noteq> ''text/html''
                                      \<and> startswith (get_content_type p) ''text'') ps))\<rparr>)"
proof (induction ps arbitrary: t)
  case Nil
  show ?case by (simp split: option.splits)
next
  case (Cons p ps)
  then show ?case by (simp split: option.splits)
qed

lemma body_without_plain:
  assumes "list_all (\<lambda>p. get_content_type p \<noteq> CONTENT_TYPE_TEXT_PLAIN) (walk m)"
  shows "get_msg_text m =
     Inr (case find (\<lambda>p. get_content_type p = ''text/html'') (walk m) of
            Some p \<Rightarrow> get_payload p
          | None \<Rightarrow>
              (case find (\<lambda>p. get_content_type p \<noteq> ''text/html''
                               \<and> startswith (get_content_type p) ''text'') (walk m) of
                 Some p \<Rightarrow> get_payload p
               | None \<Rightarrow> get_payload m))"
  using scan_parts_no_plain [OF assms]
  by (simp add: get_msg_text_def split: option.splits)

subsection \<open>Re-delivery of the last message\<close>

text \<open>
  C2, as amended: when the reader has seen the UID \<open>U\<close>, its queue is empty, the folder is
  selected and the search \<^verbatim>\<open>UID U:*\<close> returns only UIDs that are not above \<open>U\<close>, then
  \<^verbatim>\<open>read_next\<close> sends one fetch for \<open>U\<close> and makes of its answer what lines 109 to 117
  make of it: the message when the answer carries it, \<^verbatim>\<open>None\<close> when the answer has no data
  for \<open>U\<close>, and an exception that is not caught when the first element of the answer is
  a bare line (a fetch answered \<^verbatim>\<open>NO\<close>).
\<close>

theorem redelivery:
  assumes "connection r = Some c"
    and "state c \<noteq> NONAUTH"
    and "select_rsp (conn w (ident c)) (folder r) = Inr True"
    and "unread_ids r = []"
    and "last_id r = Some U"
    and "search_rsp (conn w (ident c)) (''UID '' @ str_int U @ '':*'') = Inr (Some d)"
    and "list_all (\<lambda>t. case py_int t of None \<Rightarrow> False | Some n \<Rightarrow> n \<le> U) (bytes_split d)"
    and "fetch_rsp (conn w (ident c)) (str_int U) = Inr fd"
  shows "read_next w r =
         (case fd of
            Data m \<Rightarrow> Inr (Some m)
          | NoData \<Rightarrow> Inr None
          | NoFirst \<Rightarrow> Inr None
          | Line bs \<Rightarrow> Inl (if length bs < 2 then IndexError else AttributeError),
          r\<lparr>connection := Some (c\<lparr>state := SELECTED\<rparr>)\<rparr>,
          [Select (folder r), Search (''UID '' @ str_int U @ '':*''), Fetch (str_int U)])"
proof -
  let ?r0 = "r\<lparr>connection := Some (c\<lparr>state := SELECTED\<rparr>)\<rparr>"
  have sel: "select w c (folder r) = (Inr True, c\<lparr>state := SELECTED\<rparr>)"
    using assms(2,3) by (simp add: select_def)
  have crit: "search_criterion w ?r0 = ''UID '' @ str_int U @ '':*''"
    using assms(5) by (simp add: search_criterion_def)
  have rf: "refill w ?r0 (c\<lparr>state := SELECTED\<rparr>) =
      (Inr (?r0\<lparr>unread_ids := bytes_split d\<rparr>), [Search (''UID '' @ str_int U @ '':*'')])"
    using assms(4,6) crit by (simp add: refill_def uid_search_def)
  have sc: "scan_unread (Some U) (bytes_split d) = Miss"
    using assms(7) by (rule scan_unread_miss)
  have same: "?r0\<lparr>unread_ids := []\<rparr> = ?r0" using assms(4) by simp
  have fm: "fetch_message w ?r0 (str_int U) =
      (case fd of
         Data m \<Rightarrow> Inr (Some m)
       | NoData \<Rightarrow> Inr None
       | NoFirst \<Rightarrow> Inr None
       | Line bs \<Rightarrow> Inl (if length bs < 2 then IndexError else AttributeError))"
    using assms(8) by (simp add: fetch_message_def uid_fetch_def split: fetch_data.splits)
  have body: "read_body w r =
     (fetch_message w ?r0 (str_int U), ?r0,
      [Select (folder r), Search (''UID '' @ str_int U @ '':*''), Fetch (str_int U)])"
    using assms(1,5) sel rf sc same
    by (simp add: read_body_def Let_def str_last_def)
  show ?thesis
    unfolding read_next_def body fm
    by (cases fd) simp_all
qed

text \<open>
  The message with UID 5 is still there and the search returns the UID 4: the message is
  delivered again. The same fetch answered \<^verbatim>\<open>NO\<close>: \<^verbatim>\<open>read_next\<close> raises.
\<close>

theorem redelivery_witness:
  "read_next (day None (\<lambda>k. box ''4'' (\<lambda>u. Inr (Data (mail ''jane@example.com'')))))
     (inbox (Some 5))
   = (Inr (Some (mail ''jane@example.com'')), inbox (Some 5),
      [Select ''INBOX'', Search ''UID 5:*'', Fetch ''5''])
   \<and> read_next (day None (\<lambda>k. box ''4'' (\<lambda>u. Inr (Line ''Mailbox busy''))))
     (inbox (Some 5))
   = (Inl AttributeError, inbox (Some 5),
      [Select ''INBOX'', Search ''UID 5:*'', Fetch ''5''])"
proof -
  have a: "read_next (day None (\<lambda>k. box ''4'' (\<lambda>u. Inr fd))) (inbox (Some 5)) =
         (case fd of
            Data m \<Rightarrow> Inr (Some m)
          | NoData \<Rightarrow> Inr None
          | NoFirst \<Rightarrow> Inr None
          | Line bs \<Rightarrow> Inl (if length bs < 2 then IndexError else AttributeError),
          (inbox (Some 5))\<lparr>connection := Some (\<lparr>ident = 0, state = SELECTED\<rparr>\<lparr>state := SELECTED\<rparr>)\<rparr>,
          [Select (folder (inbox (Some 5))), Search (''UID '' @ str_int 5 @ '':*''),
           Fetch (str_int 5)])" for fd
    by (rule redelivery [where d = "''4''"])
       (simp_all add: inbox_def day_def box_def split_4 int_4)
  show ?thesis
    using a [of "Data (mail ''jane@example.com'')"] a [of "Line ''Mailbox busy''"]
    by (simp add: inbox_def str_int_5)
qed

text \<open>
  The message with UID 5 was removed from the folder: the search returns the UID 4, the
  fetch of 5 returns a list whose first element is \<^verbatim>\<open>None\<close>, no exception is raised, and
  \<^verbatim>\<open>read_next\<close> returns \<^verbatim>\<open>None\<close> although a message has been seen.
\<close>

theorem redelivery_none_counterexample:
  "last_id (inbox (Some 5)) = Some 5
   \<and> map py_int (bytes_split ''4'') = [Some 4]
   \<and> read_next (day None (\<lambda>k. box ''4'' (\<lambda>u. Inr NoFirst))) (inbox (Some 5))
     = (Inr None, inbox (Some 5), [Select ''INBOX'', Search ''UID 5:*'', Fetch ''5''])"
  by (simp add: read_next_def read_body_def refill_def search_criterion_def fetch_message_def
      select_def uid_search_def uid_fetch_def
      str_last_def Let_def inbox_def day_def box_def split_4 int_4 str_int_5)

subsection \<open>The reconnect path\<close>

text \<open>
  Whenever the body of the \<^verbatim>\<open>try\<close> raises \<^verbatim>\<open>IMAP4.error\<close>, \<^verbatim>\<open>connect()\<close> is called exactly
  once and no search follows. When that \<^verbatim>\<open>connect()\<close> succeeds, the new object is in state
  \<^verbatim>\<open>AUTH\<close>: line 148 fetches without selecting the folder, the object refuses the command
  with \<^verbatim>\<open>IMAP4.error\<close>, and \<^verbatim>\<open>read_next\<close> returns \<^verbatim>\<open>None\<close>.
\<close>

lemma one_reconnect_no_search:
  assumes "read_body w r = (Inl IMAP4_error, r1, cs)"
  shows "count_list (snd (snd (read_next w r))) Connect = 1
    \<and> filter is_search (drop (length cs) (snd (snd (read_next w r)))) = []"
proof -
  note path = read_next_error_path [OF assms]
  have "Connect \<notin> set cs" using read_body_no_connect [of w r] assms by simp
  then have c0: "count_list cs Connect = 0" by (rule count_list_absent)
  have one: "count_list (snd (snd (read_next w r))) Connect = 1"
    using path c0 reconnect_one_connect [of w r1] by simp
  have nos: "filter is_search (drop (length cs) (snd (snd (read_next w r)))) = []"
    using path reconnect_no_search [of w r1] by simp
  show ?thesis using one nos by simp
qed

lemma reconnect_success_none:
  assumes "fst (connect w r) = Inr True"
  shows "fst (reconnect w r) = Inr None"
proof -
  obtain r1 where c: "connect w r = (Inr True, r1)"
    using assms by (cases "connect w r") simp
  then have "connection r1 = Some \<lparr>ident = fresh (connection r), state = AUTH\<rparr>"
    using connect_true_state [OF assms] by simp
  then have "fetch_message w r1 u = Inl IMAP4_error" for u
    by (simp add: fetch_message_def uid_fetch_def)
  with c show ?thesis by (simp add: reconnect_def split: option.splits)
qed

lemma no_message_after_reconnect:
  assumes "read_body w r = (Inl IMAP4_error, r1, cs)" and "fst (connect w r1) = Inr True"
  shows "fst (read_next w r) = Inr None"
  using read_next_error_path [OF assms(1)] reconnect_success_none [OF assms(2)] by simp

text \<open>
  C3: the claim is that after a protocol error and a reconnect that succeeds the message
  at the last-seen UID is returned. The connection held is lost and the selection raises;
  the server is reachable again, the reconnect succeeds, and the server would answer the
  fetch of the UID 5 with the message: \<^verbatim>\<open>read_next\<close> calls \<^verbatim>\<open>connect()\<close> once, fetches 5 on
  the new connection without selecting the folder, and returns \<^verbatim>\<open>None\<close>.
\<close>

theorem reconnect_returns_none:
  "read_body
     (day None (\<lambda>k. if k = 0 then lost
                     else box ''5'' (\<lambda>u. Inr (Data (mail ''jane@example.com'')))))
     (inbox (Some 5)) = (Inl IMAP4_error, inbox (Some 5), [Select ''INBOX''])
   \<and> connect
       (day None (\<lambda>k. if k = 0 then lost
                       else box ''5'' (\<lambda>u. Inr (Data (mail ''jane@example.com'')))))
       (inbox (Some 5))
     = (Inr True, (inbox (Some 5))\<lparr>connection := Some \<lparr>ident = 1, state = AUTH\<rparr>\<rparr>)
   \<and> fetch_rsp
       (conn (day None (\<lambda>k. if k = 0 then lost
                             else box ''5'' (\<lambda>u. Inr (Data (mail ''jane@example.com''))))) 1)
       ''5''
     = Inr (Data (mail ''jane@example.com''))
   \<and> read_next
       (day None (\<lambda>k. if k = 0 then lost
                       else box ''5'' (\<lambda>u. Inr (Data (mail ''jane@example.com'')))))
       (inbox (Some 5))
     = (Inr None, (inbox (Some 5))\<lparr>connection := Some \<lparr>ident = 1, state = AUTH\<rparr>\<rparr>,
        [Select ''INBOX'', Connect, Fetch ''5''])"
  by (simp add: read_next_def read_body_def reconnect_def connect_def login_def select_def
      fetch_message_def uid_fetch_def fresh_def inbox_def day_def box_def lost_def str_int_5)

subsection \<open>Session establishment\<close>

text \<open>
  C7, as amended: whenever the constructor of the connection or the login raises
  \<^verbatim>\<open>IMAP4.error\<close> (a refused greeting, a rejected login), \<^verbatim>\<open>connect()\<close> returns \<^verbatim>\<open>False\<close> and
  raises nothing; whenever either raises an exception \<open>e\<close> of another class (the
  \<^verbatim>\<open>OSError\<close> of a network failure), \<^verbatim>\<open>connect()\<close> raises \<open>e\<close>. Whenever \<^verbatim>\<open>connect()\<close>
  returns \<^verbatim>\<open>False\<close>, \<^verbatim>\<open>setup_platform\<close> hands no entity to \<^verbatim>\<open>add_entities\<close>; whenever it
  raises, \<^verbatim>\<open>setup_platform\<close> raises the same exception.
\<close>

theorem connect_outcomes:
  "(open_rsp w = Some IMAP4_error
      \<or> (open_rsp w = None
          \<and> login_rsp (conn w (fresh (connection r))) (user r) (password r) = Some IMAP4_error)
    \<longrightarrow> fst (connect w r) = Inr False)
   \<and> (e \<noteq> IMAP4_error
       \<and> (open_rsp w = Some e
           \<or> (open_rsp w = None
               \<and> login_rsp (conn w (fresh (connection r))) (user r) (password r) = Some e))
    \<longrightarrow> fst (connect w r) = Inl e)
   \<and> (fst (connect w (EmailReader (conf_username c) (conf_password c) (conf_server c)
                       (conf_port c) (conf_folder c))) = Inr False
    \<longrightarrow> setup_platform w c = Inr [])
   \<and> (fst (connect w (EmailReader (conf_username c) (conf_password c) (conf_server c)
                       (conf_port c) (conf_folder c))) = Inl e
    \<longrightarrow> setup_platform w c = Inl e)"
  by (auto simp: connect_def login_def setup_platform_def EmailContentSensor_def
      split: option.splits prod.splits sum.splits)

text \<open>
  A rejected login, a refused greeting, the set-up after the rejected login; a
  connection that breaks during the login, and the set-up with it.
\<close>

theorem connect_outcomes_witness:
  "fst (connect (day None (\<lambda>k. locked))
          (EmailReader ''jane'' ''secret'' ''imap.example.com'' 993 ''INBOX'')) = Inr False
   \<and> fst (connect (day (Some IMAP4_error) (\<lambda>k. locked))
          (EmailReader ''jane'' ''secret'' ''imap.example.com'' 993 ''INBOX'')) = Inr False
   \<and> setup_platform (day None (\<lambda>k. locked)) settings = Inr []
   \<and> fst (connect (day None (\<lambda>k. dropped))
          (EmailReader ''jane'' ''secret'' ''imap.example.com'' 993 ''INBOX'')) = Inl OSError
   \<and> setup_platform (day None (\<lambda>k. dropped)) settings = Inl OSError"
proof -
  let ?r = "EmailReader ''jane'' ''secret'' ''imap.example.com'' 993 ''INBOX''"
  have l: "open_rsp (day None (\<lambda>k. locked)) = None
      \<and> login_rsp (conn (day None (\<lambda>k. locked)) (fresh (connection ?r))) (user ?r) (password ?r)
          = Some IMAP4_error"
    by (simp add: day_def locked_def)
  have o: "open_rsp (day (Some IMAP4_error) (\<lambda>k. locked)) = Some IMAP4_error"
    by (simp add: day_def)
  have d: "open_rsp (day None (\<lambda>k. dropped)) = None
      \<and> login_rsp (conn (day None (\<lambda>k. dropped)) (fresh (connection ?r))) (user ?r) (password ?r)
          = Some OSError"
    by (simp add: day_def dropped_def)
  have s: "EmailReader (conf_username settings) (conf_password settings) (conf_server settings)
             (conf_port settings) (conf_folder settings) = ?r"
    by (simp add: settings_def)
  show ?thesis
    using connect_outcomes [of "day None (\<lambda>k. locked)" ?r OSError settings]
      connect_outcomes [of "day (Some IMAP4_error) (\<lambda>k. locked)" ?r OSError settings]
      connect_outcomes [of "day None (\<lambda>k. dropped)" ?r OSError settings] l o d s
    by simp
qed

text \<open>
  The network is down: the constructor raises \<^verbatim>\<open>OSError\<close>, which is not an
  \<^verbatim>\<open>IMAP4.error\<close>; \<^verbatim>\<open>connect()\<close> raises it, and so does \<^verbatim>\<open>setup_platform\<close>.
\<close>

theorem connect_raises_counterexample:
  "connect (day (Some OSError) (\<lambda>k. box [] (\<lambda>u. Inr NoFirst)))
     (EmailReader ''jane'' ''secret'' ''imap.example.com'' 993 ''INBOX'')
   = (Inl OSError, EmailReader ''jane'' ''secret'' ''imap.example.com'' 993 ''INBOX'')
   \<and> setup_platform (day (Some OSError) (\<lambda>k. box [] (\<lambda>u. Inr NoFirst))) settings
     = Inl OSError"
  by (simp add: connect_def setup_platform_def EmailContentSensor_def day_def settings_def)

subsection \<open>The search\<close>

text \<open>
  C8: in every \<^verbatim>\<open>read_next\<close> call that starts with an empty queue and reaches the search
  (there is a connection and the selection of the folder returns), exactly one search is
  sent, and its text depends on \<^verbatim>\<open>_last_id\<close> only: \<^verbatim>\<open>SINCE\<close> with the date of the day when
  no UID has been seen, \<^verbatim>\<open>UID n:*\<close> with the last-seen UID \<open>n\<close> itself as lower bound
  otherwise.
\<close>

theorem search_branch:
  assumes "unread_ids r = []"
    and "connection r = Some c"
    and "fst (select w c (folder r)) = Inr ok"
  shows "filter is_search (snd (snd (read_next w r))) =
         [Search (case last_id r of
                    None \<Rightarrow> ''SINCE '' @ today w
                  | Some u \<Rightarrow> ''UID '' @ str_int u @ '':*'')]"
proof -
  obtain res r1 cs where b: "read_body w r = (res, r1, cs)" by (cases "read_body w r")
  with assms have cs: "filter is_search cs = [Search (search_criterion w r)]"
    using read_body_searches [of r c w ok] by simp
  obtain res' r2 cs' where rc: "reconnect w r1 = (res', r2, cs')" by (cases "reconnect w r1")
  then have "filter is_search cs' = []" using reconnect_no_search [of w r1] by simp
  with b rc cs have "filter is_search (snd (snd (read_next w r))) = [Search (search_criterion w r)]"
    by (cases res) (simp_all add: read_next_def)
  then show ?thesis by (simp add: search_criterion_def)
qed

text \<open>
  The first poll of a day, and a poll after the UID 5 has been seen.
\<close>

theorem search_branch_witness:
  "filter is_search
     (snd (snd (read_next (day None (\<lambda>k. box ''7'' (\<lambda>u. Inr NoFirst))) (inbox None))))
     = [Search ''SINCE 04-Nov-2026'']
   \<and> filter is_search
     (snd (snd (read_next (day None (\<lambda>k. box ''7'' (\<lambda>u. Inr NoFirst))) (inbox (Some 5)))))
     = [Search ''UID 5:*'']"
proof -
  let ?w = "day None (\<lambda>k. box ''7'' (\<lambda>u. Inr NoFirst))"
  have a: "unread_ids (inbox l) = []"
    "connection (inbox l) = Some \<lparr>ident = 0, state = SELECTED\<rparr>"
    "fst (select ?w \<lparr>ident = 0, state = SELECTED\<rparr> (folder (inbox l))) = Inr True" for l
    by (simp_all add: inbox_def day_def box_def select_def)
  show ?thesis
    using search_branch [of "inbox None" _ ?w, OF a]
      search_branch [of "inbox (Some 5)" _ ?w, OF a]
    by (simp add: inbox_def day_def str_int_5)
qed

subsection \<open>The published state\<close>

text \<open>
  C9: when \<^verbatim>\<open>read_next\<close> returns a message whose sender is not allowed, \<^verbatim>\<open>update\<close> returns
  normally and changes nothing of the sensor but its reader: \<^verbatim>\<open>_message\<close> and
  \<^verbatim>\<open>_state_attributes\<close> are what they were. And a value that was published is cleared by
  \<^verbatim>\<open>update\<close> only on a tick where \<^verbatim>\<open>read_next\<close> returns \<^verbatim>\<open>None\<close>. This holds for every
  parser of addresses \<open>pa\<close> and every decoder of headers \<open>dec\<close>.
\<close>

theorem update_frame:
  "(read_next w (email_reader s) = (Inr (Some m), rd, cs) \<and> \<not> sender_allowed pa s m \<longrightarrow>
      update pa dec w s = (None, s\<lparr>email_reader := rd\<rparr>, cs)
      \<and> message (fst (snd (update pa dec w s))) = message s
      \<and> state_attributes (fst (snd (update pa dec w s))) = state_attributes s)
   \<and> (message (fst (snd (update pa dec w s))) = None \<and> message s \<noteq> None \<longrightarrow>
      fst (read_next w (email_reader s)) = Inr None)"
  by (auto simp: update_def Let_def sender_allowed_def
      split: prod.splits sum.splits option.splits if_splits)

text \<open>
  A message of a sender that is not allowed arrives: the earlier alarm stays published.
\<close>

theorem update_frame_witness:
  "read_next
     (day None (\<lambda>k. box ''7'' (\<lambda>u. Inr (Data (mail ''Mallory <mallory@example.org>'')))))
     (email_reader watcher)
     = (Inr (Some (mail ''Mallory <mallory@example.org>'')), inbox (Some 7),
        [Select ''INBOX'', Search ''SINCE 04-Nov-2026'', Fetch ''7''])
   \<and> \<not> sender_allowed angle_addr watcher (mail ''Mallory <mallory@example.org>'')
   \<and> message (fst (snd (update angle_addr Inr
        (day None (\<lambda>k. box ''7'' (\<lambda>u. Inr (Data (mail ''Mallory <mallory@example.org>'')))))
        watcher)))
     = Some ''Alarm''
   \<and> state_attributes (fst (snd (update angle_addr Inr
        (day None (\<lambda>k. box ''7'' (\<lambda>u. Inr (Data (mail ''Mallory <mallory@example.org>'')))))
        watcher)))
     = Some [(''from'', Str ''jane@example.com'')]"
proof -
  let ?m = "mail ''Mallory <mallory@example.org>''"
  let ?w = "day None (\<lambda>k. box ''7'' (\<lambda>u. Inr (Data ?m)))"
  have rn: "read_next ?w (email_reader watcher) =
      (Inr (Some ?m), inbox (Some 7),
       [Select ''INBOX'', Search ''SINCE 04-Nov-2026'', Fetch ''7''])"
    by (simp add: read_next_def read_body_def refill_def search_criterion_def fetch_message_def
        select_def uid_search_def uid_fetch_def
        Let_def watcher_def inbox_def day_def box_def split_7 int_7)
  have na: "\<not> sender_allowed angle_addr watcher ?m"
    by (simp add: sender_allowed_def sender_mallory upper_mallory watcher_def)
  show ?thesis
    using update_frame [of ?w watcher ?m "inbox (Some 7)"
        "[Select ''INBOX'', Search ''SINCE 04-Nov-2026'', Fetch ''7'']" angle_addr Inr] rn na
    by (simp add: watcher_def ATTR_FROM_def)
qed

subsection \<open>The sender\<close>

text \<open>
  C10: for a message without a \<^verbatim>\<open>From\<close> header, \<^verbatim>\<open>get_msg_sender\<close> returns the empty string
  (the header is \<^verbatim>\<open>None\<close>, and the address parsed from it is empty), and \<^verbatim>\<open>sender_allowed\<close>
  is false unless the list of allowed senders has an empty entry.
\<close>

theorem missing_from:
  assumes "get_header m ''From'' = None"
  shows "get_msg_sender pa m = []
    \<and> ([] \<notin> set (allowed_senders s) \<longrightarrow> \<not> sender_allowed pa s m)"
  using assms by (simp add: get_msg_sender_def parseaddr_def sender_allowed_def upper_def)

theorem missing_from_witness:
  "get_header (Message [(''Subject'', ''Alarm'')] ''text/html'' (Text ''<p>Door open</p>''))
     ''From'' = None
   \<and> get_msg_sender angle_addr
        (Message [(''Subject'', ''Alarm'')] ''text/html'' (Text ''<p>Door open</p>'')) = []
   \<and> \<not> sender_allowed angle_addr watcher
        (Message [(''Subject'', ''Alarm'')] ''text/html'' (Text ''<p>Door open</p>''))"
  using missing_from [OF no_from, of angle_addr watcher] no_from
  by (simp add: watcher_def)

text \<open>
  C6: the sensor keeps the configured senders in upper case, as \<^verbatim>\<open>__init__\<close> stored
  them once (\<^verbatim>\<open>update\<close> leaves the list alone), and \<^verbatim>\<open>sender_allowed\<close> is true exactly when
  the address parsed from the \<^verbatim>\<open>From\<close> header, in upper case, is equal to a configured
  sender in upper case: equality of the whole address, not containment. This holds for
  every parser of addresses \<open>pa\<close>.
\<close>

theorem sender_allowed_iff:
  assumes "EmailContentSensor w rd nm senders tmpl = Inr s"
  shows "allowed_senders s = map upper senders
    \<and> allowed_senders (fst (snd (update pa dec w' s))) = map upper senders
    \<and> (sender_allowed pa s m \<longleftrightarrow>
         (\<exists>e \<in> set senders. upper (get_msg_sender pa m) = upper e))"
proof -
  have a: "allowed_senders s = map upper senders"
    using assms by (auto simp: EmailContentSensor_def split: prod.splits sum.splits)
  have "allowed_senders (fst (snd (update pa dec w' s))) = allowed_senders s"
    by (simp add: update_def Let_def split: prod.splits sum.splits option.splits)
  with a show ?thesis by (auto simp: sender_allowed_def)
qed

text \<open>
  The header \<^verbatim>\<open>Jane Doe <jane@example.com>\<close> passes the list \<^verbatim>\<open>["JANE@EXAMPLE.COM"]\<close>; the
  address \<^verbatim>\<open>notjane@example.com\<close>, which contains an allowed one, does not.
\<close>

theorem sender_allowed_witness:
  "(case EmailContentSensor (day None (\<lambda>k. box [] (\<lambda>u. Inr NoFirst)))
          (EmailReader ''jane'' ''secret'' ''imap.example.com'' 993 ''INBOX'')
          ''jane'' [''JANE@EXAMPLE.COM''] None of
      Inl e \<Rightarrow> False
    | Inr s \<Rightarrow>
        sender_allowed angle_addr s (mail ''Jane Doe <jane@example.com>'')
        \<and> \<not> sender_allowed angle_addr s (mail ''notjane@example.com''))"
proof -
  let ?w = "day None (\<lambda>k. box [] (\<lambda>u. Inr NoFirst))"
  let ?r = "EmailReader ''jane'' ''secret'' ''imap.example.com'' 993 ''INBOX''"
  obtain s where s: "EmailContentSensor ?w ?r ''jane'' [''JANE@EXAMPLE.COM''] None = Inr s"
    by (simp add: EmailContentSensor_def connect_def login_def day_def box_def)
  have "sender_allowed angle_addr s (mail ''Jane Doe <jane@example.com>'')"
    using sender_allowed_iff
      [OF s, where m = "mail ''Jane Doe <jane@example.com>''" and pa = angle_addr]
    by (simp add: sender_jane upper_jane upper_JANE)
  moreover have "\<not> sender_allowed angle_addr s (mail ''notjane@example.com'')"
    using sender_allowed_iff [OF s, where m = "mail ''notjane@example.com''" and pa = angle_addr]
    by (simp add: sender_notjane upper_notjane upper_JANE)
  ultimately show ?thesis using s by simp
qed

subsection \<open>The body\<close>

text \<open>
  C4: the claim is that a \<^verbatim>\<open>text/plain\<close> part holding \<^verbatim>\<open>SGVsbG8=\<close> gives the body
  \<^verbatim>\<open>Hello\<close>. On that message \<^verbatim>\<open>get_msg_text\<close> raises \<^verbatim>\<open>NameError\<close>: the call of line 228
  does not reach the method.
\<close>

theorem base64_body_raises:
  "get_msg_text (Message [(''From'', ''Jane Doe <jane@example.com>'')] ''text/plain''
     (Text ''SGVsbG8='')) = Inl NameError"
  by (simp add: get_msg_text_def CONTENT_TYPE_TEXT_PLAIN_def)

text \<open>
  C5: the claim is that a \<^verbatim>\<open>text/plain\<close> part is preferred to a \<^verbatim>\<open>text/html\<close> part and that
  \<^verbatim>\<open>Hello world\<close> is returned as it is. On the multipart message with these two parts
  \<^verbatim>\<open>get_msg_text\<close> raises \<^verbatim>\<open>NameError\<close> at the \<^verbatim>\<open>text/plain\<close> part.
\<close>

theorem plain_precedence_raises:
  "get_msg_text (Message [] ''multipart/alternative''
     (Parts [Message [] ''text/plain'' (Text ''Hello world''),
             Message [] ''text/html'' (Text ''<p>Hello world</p>'')])) = Inl NameError"
  by (simp add: get_msg_text_def CONTENT_TYPE_TEXT_PLAIN_def)

end
